theory Spec2Isabelle
  imports Main "HOL-Library.Word" "HOL-Library.Sublist"
begin

section \<open>The cache of Universal Recycle (src/recycle/cache.py)\<close>

text \<open>
  A shallow embedding of \<^verbatim>\<open>recycle/cache.py\<close>: the cache entry, the three storage
  backends (Redis, S3, local files), the manager that fronts them, and the key generators.

  Conventions of the embedding.
  \<^item> A \<^verbatim>\<open>datetime\<close> is an \<open>int\<close>, the number of microseconds (the resolution of
    Python's \<^verbatim>\<open>datetime\<close>) since \<^verbatim>\<open>datetime.min\<close>, midnight of 1 January of year 1;
    \<^verbatim>\<open>datetime.max\<close> is \<open>datetime_max\<close>. \<^verbatim>\<open>timedelta(seconds=n)\<close> and the sum of a
    \<^verbatim>\<open>datetime\<close> and a \<^verbatim>\<open>timedelta\<close> raise \<^verbatim>\<open>OverflowError\<close> outside their ranges.
  \<^item> Every method of a backend takes the reading \<open>now\<close> of the clock during the call as a
    parameter. A method of the manager takes a function \<open>clk\<close> that gives the reading of
    the clock at each place of the call: in \<^verbatim>\<open>set\<close>, \<open>clk 0\<close> is the
    \<^verbatim>\<open>datetime.now()\<close> of the expiration, \<open>clk 1\<close> that of \<^verbatim>\<open>created_at\<close> and
    \<open>clk (i + 2)\<close> the reading during the call to backend \<open>i\<close>; in \<^verbatim>\<open>get\<close>,
    \<^verbatim>\<open>delete\<close> and \<^verbatim>\<open>exists\<close>, \<open>clk i\<close> is the reading during the call to backend
    \<open>i\<close>.
  \<^item> A payload is a byte string, \<open>8 word list\<close>. Keys are \<open>string\<close>s.
  \<^item> The dictionary written by \<^verbatim>\<open>to_dict\<close> is stored as it is:
    \<^verbatim>\<open>pickle.loads(pickle.dumps(d))\<close> gives \<open>d\<close> back, and so does
    \<^verbatim>\<open>fromisoformat(isoformat(t))\<close>.
  \<^item> Each backend owns its store. A field \<open>*_up\<close> says whether the calls of the
    backend's client (the Redis client, the S3 client, the file system) succeed; when it is
    \<open>False\<close> every such call raises and the \<^verbatim>\<open>except Exception\<close> branch of the method runs.
\<close>

type_synonym bytes = "8 word list"

datatype py_error =
  NotImplementedError | ConnectionError | ResponseError | ClientError | OverflowError

subsection \<open>datetime and timedelta\<close>

definition datetime_max :: int where
  "datetime_max = 315537897599999999"

text \<open>\<^verbatim>\<open>timedelta(seconds=s)\<close> for an integer \<open>s\<close>, in microseconds: the number of whole days
  must have a magnitude of at most 999999999.\<close>

definition timedelta_seconds :: "int \<Rightarrow> py_error + int" where
  "timedelta_seconds s =
     (if - 999999999 \<le> s div 86400 \<and> s div 86400 \<le> 999999999 then Inr (s * 1000000)
      else Inl OverflowError)"

text \<open>\<^verbatim>\<open>t + delta\<close> for a \<^verbatim>\<open>datetime\<close> \<open>t\<close>: the result must lie between
  \<^verbatim>\<open>datetime.min\<close> and \<^verbatim>\<open>datetime.max\<close>.\<close>

definition datetime_add :: "int \<Rightarrow> int \<Rightarrow> py_error + int" where
  "datetime_add t delta =
     (if 0 \<le> t + delta \<and> t + delta \<le> datetime_max then Inr (t + delta) else Inl OverflowError)"

text \<open>The clock after one reading: its readings from the next place on.\<close>

definition tick :: "(nat \<Rightarrow> int) \<Rightarrow> nat \<Rightarrow> int" where
  "tick clk i = clk (Suc i)"

subsection \<open>CacheEntry\<close>

record cache_entry =
  key :: string
  data :: bytes
  created_at :: int
  expires_at :: "int option"
  size_bytes :: nat
  metadata :: "(string \<times> string) list"

text \<open>\<^verbatim>\<open>is_expired\<close>: an entry without \<^verbatim>\<open>expires_at\<close> never expires; otherwise it has
  expired when the clock is strictly past \<^verbatim>\<open>expires_at\<close>.\<close>

definition is_expired :: "int \<Rightarrow> cache_entry \<Rightarrow> bool" where
  "is_expired now e = (case expires_at e of None \<Rightarrow> False | Some t \<Rightarrow> now > t)"

text \<open>The dictionary of \<^verbatim>\<open>to_dict\<close>, with the two timestamps in ISO format kept as
  timestamps.\<close>

record entry_dict =
  dict_key :: string
  dict_data :: bytes
  dict_created_at :: int
  dict_expires_at :: "int option"
  dict_size_bytes :: nat
  dict_metadata :: "(string \<times> string) list"

definition to_dict :: "cache_entry \<Rightarrow> entry_dict" where
  "to_dict e =
     \<lparr>dict_key = key e, dict_data = data e, dict_created_at = created_at e,
      dict_expires_at = (case expires_at e of Some t \<Rightarrow> Some t | None \<Rightarrow> None),
      dict_size_bytes = size_bytes e, dict_metadata = metadata e\<rparr>"

definition from_dict :: "entry_dict \<Rightarrow> cache_entry" where
  "from_dict d =
     \<lparr>key = dict_key d, data = dict_data d, created_at = dict_created_at d,
      expires_at = (case dict_expires_at d of Some t \<Rightarrow> Some t | None \<Rightarrow> None),
      size_bytes = dict_size_bytes d, metadata = dict_metadata d\<rparr>"

subsection \<open>pickle.dumps on a bytes object\<close>

text \<open>
  \<^verbatim>\<open>pickle.dumps(data)\<close> for a \<^verbatim>\<open>bytes\<close> object under protocol 4, the default of the
  Python versions the package supports (\<^verbatim>\<open>python_requires=">=3.9"\<close>): the \<^verbatim>\<open>PROTO\<close>
  opcode, a \<^verbatim>\<open>FRAME\<close> header when the object is shorter than 64 KiB, the opcode
  \<^verbatim>\<open>SHORT_BINBYTES\<close>, \<^verbatim>\<open>BINBYTES\<close> or \<^verbatim>\<open>BINBYTES8\<close> with the length in little-endian
  order, the bytes themselves, \<^verbatim>\<open>MEMOIZE\<close> and \<^verbatim>\<open>STOP\<close>.
\<close>

fun le_bytes :: "nat \<Rightarrow> nat \<Rightarrow> bytes" where
  "le_bytes 0 n = []"
| "le_bytes (Suc w) n = word_of_nat (n mod 256) # le_bytes w (n div 256)"

definition binbytes :: "bytes \<Rightarrow> bytes" where
  "binbytes d =
     (let n = length d in
      if n < 256 then [0x43] @ le_bytes 1 n @ d
      else if n < 4294967296 then [0x42] @ le_bytes 4 n @ d
      else [0x8E] @ le_bytes 8 n @ d)"

definition pickle_dumps :: "bytes \<Rightarrow> bytes" where
  "pickle_dumps d =
     (let body = binbytes d @ [0x94, 0x2E] in
      if length d < 65536 then [0x80, 0x04] @ [0x95] @ le_bytes 8 (length body) @ body
      else [0x80, 0x04] @ body)"

subsection \<open>LocalCacheBackend\<close>

text \<open>
  The files of \<^verbatim>\<open>cache_dir\<close>, by file name. \<^verbatim>\<open>hashlib.md5(key.encode()).hexdigest()\<close> is
  not code of the repository: it is the parameter \<open>md5\<close> of every operation that
  derives a path.
\<close>

record local_backend =
  local_cache_dir :: string
  local_default_ttl :: int
  local_up :: bool
  local_files :: "string \<rightharpoonup> entry_dict"

text \<open>\<^verbatim>\<open>LocalCacheBackend.__init__\<close>: the two configuration keys with their defaults; the
  directory is created if missing, so the backend starts from the files already there.\<close>

record local_config =
  cfg_cache_dir :: "string option"
  cfg_default_ttl :: "int option"

definition LocalCacheBackend_init :: "local_config \<Rightarrow> (string \<rightharpoonup> entry_dict) \<Rightarrow> local_backend" where
  "LocalCacheBackend_init cfg files =
     \<lparr>local_cache_dir = (case cfg_cache_dir cfg of Some d \<Rightarrow> d | None \<Rightarrow> ''.cache/universal_recycle''),
      local_default_ttl = (case cfg_default_ttl cfg of Some t \<Rightarrow> t | None \<Rightarrow> 3600),
      local_up = True,
      local_files = files\<rparr>"

definition get_cache_path :: "(string \<Rightarrow> string) \<Rightarrow> string \<Rightarrow> string" where
  "get_cache_path md5 k = md5 k @ ''.cache''"

definition LocalCacheBackend_delete :: "(string \<Rightarrow> string) \<Rightarrow> string \<Rightarrow> local_backend \<Rightarrow> bool \<times> local_backend" where
  "LocalCacheBackend_delete md5 k b =
     (if \<not> local_up b then (False, b)
      else let p = get_cache_path md5 k in
        (case local_files b p of
           Some d \<Rightarrow> (True, b\<lparr>local_files := (local_files b)(p := None)\<rparr>)
         | None \<Rightarrow> (False, b)))"

definition LocalCacheBackend_get ::
  "(string \<Rightarrow> string) \<Rightarrow> int \<Rightarrow> string \<Rightarrow> local_backend \<Rightarrow> cache_entry option \<times> local_backend" where
  "LocalCacheBackend_get md5 now k b =
     (if \<not> local_up b then (None, b)
      else let p = get_cache_path md5 k in
        (case local_files b p of
           None \<Rightarrow> (None, b)
         | Some d \<Rightarrow>
             (let entry = from_dict d in
              if is_expired now entry then (None, snd (LocalCacheBackend_delete md5 k b))
              else (Some entry, b))))"

definition LocalCacheBackend_set ::
  "(string \<Rightarrow> string) \<Rightarrow> cache_entry \<Rightarrow> local_backend \<Rightarrow> bool \<times> local_backend" where
  "LocalCacheBackend_set md5 entry b =
     (if \<not> local_up b then (False, b)
      else let p = get_cache_path md5 (key entry) in
        (True, b\<lparr>local_files := (local_files b)(p \<mapsto> to_dict entry)\<rparr>))"

definition LocalCacheBackend_exists :: "(string \<Rightarrow> string) \<Rightarrow> string \<Rightarrow> local_backend \<Rightarrow> bool" where
  "LocalCacheBackend_exists md5 k b =
     (if \<not> local_up b then False
      else (case local_files b (get_cache_path md5 k) of Some d \<Rightarrow> True | None \<Rightarrow> False))"


subsection \<open>RedisCacheBackend\<close>

text \<open>
  The Redis server as the source uses it: a value is stored under a key with the instant at
  which the server drops it (\<^verbatim>\<open>SETEX\<close>); \<^verbatim>\<open>GET\<close>, \<^verbatim>\<open>EXISTS\<close> and \<^verbatim>\<open>DEL\<close> see a key
  only before that instant; \<^verbatim>\<open>SETEX\<close> refuses an expire time that is not positive.
\<close>

record redis_backend =
  redis_prefix :: string
  redis_default_ttl :: int
  redis_up :: bool
  redis_db :: "string \<rightharpoonup> (entry_dict \<times> int)"

definition redis_live :: "int \<Rightarrow> string \<Rightarrow> redis_backend \<Rightarrow> entry_dict option" where
  "redis_live now rk b =
     (case redis_db b rk of None \<Rightarrow> None | Some (v, deadline) \<Rightarrow> if now < deadline then Some v else None)"

definition client_get :: "int \<Rightarrow> string \<Rightarrow> redis_backend \<Rightarrow> py_error + entry_dict option" where
  "client_get now rk b = (if \<not> redis_up b then Inl ConnectionError else Inr (redis_live now rk b))"

definition client_setex ::
  "int \<Rightarrow> string \<Rightarrow> int \<Rightarrow> entry_dict \<Rightarrow> redis_backend \<Rightarrow> py_error + redis_backend" where
  "client_setex now rk ttl v b =
     (if \<not> redis_up b then Inl ConnectionError
      else if ttl \<le> 0 then Inl ResponseError
      else Inr (b\<lparr>redis_db := (redis_db b)(rk \<mapsto> (v, now + ttl * 1000000))\<rparr>))"

definition client_delete :: "int \<Rightarrow> string \<Rightarrow> redis_backend \<Rightarrow> py_error + (nat \<times> redis_backend)" where
  "client_delete now rk b =
     (if \<not> redis_up b then Inl ConnectionError
      else Inr ((case redis_live now rk b of Some v \<Rightarrow> 1 | None \<Rightarrow> 0),
                b\<lparr>redis_db := (redis_db b)(rk := None)\<rparr>))"

definition client_exists :: "int \<Rightarrow> string \<Rightarrow> redis_backend \<Rightarrow> py_error + nat" where
  "client_exists now rk b =
     (if \<not> redis_up b then Inl ConnectionError
      else Inr (case redis_live now rk b of Some v \<Rightarrow> 1 | None \<Rightarrow> 0))"

definition Redis_make_key :: "redis_backend \<Rightarrow> string \<Rightarrow> string" where
  "Redis_make_key b k = redis_prefix b @ k"

text \<open>\<^verbatim>\<open>int(delta.total_seconds())\<close>: the whole seconds of a difference of two instants,
  rounded towards zero. Python computes \<^verbatim>\<open>total_seconds()\<close> in floating point: the result is
  the one given here for every difference of less than \<open>2 ^ 33\<close> seconds (272 years), and
  this one or the next whole second away from zero for a larger one, so the test
  \<^verbatim>\<open>ttl <= 0\<close> is always decided as here.\<close>

definition total_seconds_int :: "int \<Rightarrow> int" where
  "total_seconds_int d = (if 0 \<le> d then d div 1000000 else - ((- d) div 1000000))"

definition RedisCacheBackend_delete :: "int \<Rightarrow> string \<Rightarrow> redis_backend \<Rightarrow> bool \<times> redis_backend" where
  "RedisCacheBackend_delete now k b =
     (case client_delete now (Redis_make_key b k) b of
        Inl err \<Rightarrow> (False, b)
      | Inr (result, b') \<Rightarrow> (result > 0, b'))"

definition RedisCacheBackend_get ::
  "int \<Rightarrow> string \<Rightarrow> redis_backend \<Rightarrow> cache_entry option \<times> redis_backend" where
  "RedisCacheBackend_get now k b =
     (case client_get now (Redis_make_key b k) b of
        Inl err \<Rightarrow> (None, b)
      | Inr None \<Rightarrow> (None, b)
      | Inr (Some d) \<Rightarrow>
          (let entry = from_dict d in
           if is_expired now entry then (None, snd (RedisCacheBackend_delete now k b))
           else (Some entry, b)))"

definition RedisCacheBackend_set :: "int \<Rightarrow> cache_entry \<Rightarrow> redis_backend \<Rightarrow> bool \<times> redis_backend" where
  "RedisCacheBackend_set now entry b =
     (let redis_key = Redis_make_key b (key entry);
          d = to_dict entry;
          ttl = (case expires_at entry of
                   None \<Rightarrow> redis_default_ttl b
                 | Some t \<Rightarrow> total_seconds_int (t - now))
      in if expires_at entry \<noteq> None \<and> ttl \<le> 0 then (False, b)
         else (case client_setex now redis_key ttl d b of
                 Inl err \<Rightarrow> (False, b)
               | Inr b' \<Rightarrow> (True, b')))"

definition RedisCacheBackend_exists :: "int \<Rightarrow> string \<Rightarrow> redis_backend \<Rightarrow> bool" where
  "RedisCacheBackend_exists now k b =
     (case client_exists now (Redis_make_key b k) b of Inl err \<Rightarrow> False | Inr n \<Rightarrow> n > 0)"


subsection \<open>S3CacheBackend\<close>

text \<open>
  An S3 object is the pickled dictionary together with the object metadata written by
  \<^verbatim>\<open>set\<close>. \<^verbatim>\<open>head_object\<close> and \<^verbatim>\<open>get_object\<close> raise on a key that has no object;
  \<^verbatim>\<open>delete_object\<close> succeeds whether or not the key has one.
\<close>

record s3_object =
  body :: entry_dict
  meta_created_at :: int
  meta_size_bytes :: nat
  meta_expires_at :: "int option"

record s3_backend =
  s3_bucket_name :: string
  s3_prefix :: string
  s3_default_ttl :: int
  s3_up :: bool
  s3_objects :: "string \<rightharpoonup> s3_object"

definition head_object :: "string \<Rightarrow> s3_backend \<Rightarrow> py_error + s3_object" where
  "head_object sk b =
     (if \<not> s3_up b then Inl ConnectionError
      else (case s3_objects b sk of None \<Rightarrow> Inl ClientError | Some ob \<Rightarrow> Inr ob))"

definition get_object :: "string \<Rightarrow> s3_backend \<Rightarrow> py_error + s3_object" where
  "get_object sk b =
     (if \<not> s3_up b then Inl ConnectionError
      else (case s3_objects b sk of None \<Rightarrow> Inl ClientError | Some ob \<Rightarrow> Inr ob))"

definition put_object :: "string \<Rightarrow> s3_object \<Rightarrow> s3_backend \<Rightarrow> py_error + s3_backend" where
  "put_object sk ob b =
     (if \<not> s3_up b then Inl ConnectionError
      else Inr (b\<lparr>s3_objects := (s3_objects b)(sk \<mapsto> ob)\<rparr>))"

definition delete_object :: "string \<Rightarrow> s3_backend \<Rightarrow> py_error + s3_backend" where
  "delete_object sk b =
     (if \<not> s3_up b then Inl ConnectionError
      else Inr (b\<lparr>s3_objects := (s3_objects b)(sk := None)\<rparr>))"

definition S3_make_key :: "s3_backend \<Rightarrow> string \<Rightarrow> string" where
  "S3_make_key b k = s3_prefix b @ k"

definition S3CacheBackend_delete :: "string \<Rightarrow> s3_backend \<Rightarrow> bool \<times> s3_backend" where
  "S3CacheBackend_delete k b =
     (case delete_object (S3_make_key b k) b of
        Inl err \<Rightarrow> (False, b)
      | Inr b' \<Rightarrow> (True, b'))"

definition S3CacheBackend_get :: "int \<Rightarrow> string \<Rightarrow> s3_backend \<Rightarrow> cache_entry option \<times> s3_backend" where
  "S3CacheBackend_get now k b =
     (let s3_key = S3_make_key b k in
      case head_object s3_key b of
        Inl err \<Rightarrow> (None, b)
      | Inr response \<Rightarrow>
          (if (case meta_expires_at response of None \<Rightarrow> False | Some expires_dt \<Rightarrow> now > expires_dt)
           then (None, snd (S3CacheBackend_delete k b))
           else (case get_object s3_key b of
                   Inl err \<Rightarrow> (None, b)
                 | Inr ob \<Rightarrow> (Some (from_dict (body ob)), b))))"

definition S3CacheBackend_set :: "cache_entry \<Rightarrow> s3_backend \<Rightarrow> bool \<times> s3_backend" where
  "S3CacheBackend_set entry b =
     (let s3_key = S3_make_key b (key entry);
          ob = \<lparr>body = to_dict entry,
                meta_created_at = created_at entry,
                meta_size_bytes = size_bytes entry,
                meta_expires_at = (case expires_at entry of Some t \<Rightarrow> Some t | None \<Rightarrow> None)\<rparr>
      in case put_object s3_key ob b of
           Inl err \<Rightarrow> (False, b)
         | Inr b' \<Rightarrow> (True, b'))"

definition S3CacheBackend_exists :: "string \<Rightarrow> s3_backend \<Rightarrow> bool" where
  "S3CacheBackend_exists k b =
     (case head_object (S3_make_key b k) b of Inl err \<Rightarrow> False | Inr ob \<Rightarrow> True)"


subsection \<open>The backends behind one interface\<close>

text \<open>
  \<^verbatim>\<open>CacheManager.backends\<close> is a list of \<^verbatim>\<open>CacheBackend\<close> objects. \<open>Base\<close> is an
  instance of the base class itself, whose methods all raise \<^verbatim>\<open>NotImplementedError\<close>; the
  methods of the three subclasses catch every exception and so never raise. The functions
  \<open>backend_*\<close> are the method calls \<^verbatim>\<open>backend.get(key)\<close> and so on, with the exception
  that reaches the caller as \<open>Inl\<close>.
\<close>

datatype backend = Base | Redis redis_backend | S3 s3_backend | Local local_backend

fun backend_get ::
  "(string \<Rightarrow> string) \<Rightarrow> int \<Rightarrow> string \<Rightarrow> backend \<Rightarrow> (py_error + cache_entry option) \<times> backend" where
  "backend_get md5 now k Base = (Inl NotImplementedError, Base)"
| "backend_get md5 now k (Redis b) = (case RedisCacheBackend_get now k b of (r, b') \<Rightarrow> (Inr r, Redis b'))"
| "backend_get md5 now k (S3 b) = (case S3CacheBackend_get now k b of (r, b') \<Rightarrow> (Inr r, S3 b'))"
| "backend_get md5 now k (Local b) = (case LocalCacheBackend_get md5 now k b of (r, b') \<Rightarrow> (Inr r, Local b'))"

fun backend_set ::
  "(string \<Rightarrow> string) \<Rightarrow> int \<Rightarrow> cache_entry \<Rightarrow> backend \<Rightarrow> (py_error + bool) \<times> backend" where
  "backend_set md5 now entry Base = (Inl NotImplementedError, Base)"
| "backend_set md5 now entry (Redis b) = (case RedisCacheBackend_set now entry b of (r, b') \<Rightarrow> (Inr r, Redis b'))"
| "backend_set md5 now entry (S3 b) = (case S3CacheBackend_set entry b of (r, b') \<Rightarrow> (Inr r, S3 b'))"
| "backend_set md5 now entry (Local b) = (case LocalCacheBackend_set md5 entry b of (r, b') \<Rightarrow> (Inr r, Local b'))"

fun backend_delete ::
  "(string \<Rightarrow> string) \<Rightarrow> int \<Rightarrow> string \<Rightarrow> backend \<Rightarrow> (py_error + bool) \<times> backend" where
  "backend_delete md5 now k Base = (Inl NotImplementedError, Base)"
| "backend_delete md5 now k (Redis b) = (case RedisCacheBackend_delete now k b of (r, b') \<Rightarrow> (Inr r, Redis b'))"
| "backend_delete md5 now k (S3 b) = (case S3CacheBackend_delete k b of (r, b') \<Rightarrow> (Inr r, S3 b'))"
| "backend_delete md5 now k (Local b) = (case LocalCacheBackend_delete md5 k b of (r, b') \<Rightarrow> (Inr r, Local b'))"

fun backend_exists :: "(string \<Rightarrow> string) \<Rightarrow> int \<Rightarrow> string \<Rightarrow> backend \<Rightarrow> py_error + bool" where
  "backend_exists md5 now k Base = Inl NotImplementedError"
| "backend_exists md5 now k (Redis b) = Inr (RedisCacheBackend_exists now k b)"
| "backend_exists md5 now k (S3 b) = Inr (S3CacheBackend_exists k b)"
| "backend_exists md5 now k (Local b) = Inr (LocalCacheBackend_exists md5 k b)"


subsection \<open>CacheManager\<close>

text \<open>The manager is its list \<^verbatim>\<open>self.backends\<close>; every method returns its result and the
  backends as the call leaves them.\<close>

fun CacheManager_get ::
  "(string \<Rightarrow> string) \<Rightarrow> (nat \<Rightarrow> int) \<Rightarrow> string \<Rightarrow> backend list
     \<Rightarrow> cache_entry option \<times> backend list" where
  "CacheManager_get md5 clk k [] = (None, [])"
| "CacheManager_get md5 clk k (b # bs) =
     (case backend_get md5 (clk 0) k b of
        (Inr (Some entry), b') \<Rightarrow> (Some entry, b' # bs)
      | (Inr None, b') \<Rightarrow>
          (case CacheManager_get md5 (tick clk) k bs of (r, bs') \<Rightarrow> (r, b' # bs'))
      | (Inl err, b') \<Rightarrow>
          (case CacheManager_get md5 (tick clk) k bs of (r, bs') \<Rightarrow> (r, b' # bs')))"

text \<open>The first lines of \<^verbatim>\<open>set\<close>, which run outside any \<^verbatim>\<open>try\<close>. The expiration:
  \<^verbatim>\<open>if ttl:\<close> holds for a \<^verbatim>\<open>ttl\<close> that is neither \<^verbatim>\<open>None\<close> nor \<open>0\<close>, and then
  \<^verbatim>\<open>datetime.now() + timedelta(seconds=ttl)\<close> is computed, which can raise.\<close>

definition expiration :: "int \<Rightarrow> int option \<Rightarrow> py_error + int option" where
  "expiration now ttl =
     (case ttl of
        None \<Rightarrow> Inr None
      | Some s \<Rightarrow>
          if s \<noteq> 0 then
            (case timedelta_seconds s of
               Inl err \<Rightarrow> Inl err
             | Inr delta \<Rightarrow>
                 (case datetime_add now delta of Inl err \<Rightarrow> Inl err | Inr t \<Rightarrow> Inr (Some t)))
          else Inr None)"

text \<open>The entry that \<^verbatim>\<open>set\<close> then builds, from the reading \<open>created\<close> of the clock and
  the expiration \<open>exp\<close> just computed.\<close>

definition new_entry ::
  "int \<Rightarrow> string \<Rightarrow> bytes \<Rightarrow> int option \<Rightarrow> (string \<times> string) list option \<Rightarrow> cache_entry" where
  "new_entry created k d exp md =
     \<lparr>key = k, data = d, created_at = created, expires_at = exp,
      size_bytes = length (pickle_dumps d),
      metadata = (case md of None \<Rightarrow> [] | Some m \<Rightarrow> m)\<rparr>"

fun set_loop ::
  "(string \<Rightarrow> string) \<Rightarrow> (nat \<Rightarrow> int) \<Rightarrow> cache_entry \<Rightarrow> bool \<Rightarrow> backend list
     \<Rightarrow> bool \<times> backend list" where
  "set_loop md5 clk entry success [] = (success, [])"
| "set_loop md5 clk entry success (b # bs) =
     (case backend_set md5 (clk 0) entry b of
        (Inr True, b') \<Rightarrow>
          (case set_loop md5 (tick clk) entry True bs of (r, bs') \<Rightarrow> (r, b' # bs'))
      | (Inr False, b') \<Rightarrow>
          (case set_loop md5 (tick clk) entry success bs of (r, bs') \<Rightarrow> (r, b' # bs'))
      | (Inl err, b') \<Rightarrow>
          (case set_loop md5 (tick clk) entry success bs of (r, bs') \<Rightarrow> (r, b' # bs')))"

text \<open>\<^verbatim>\<open>set\<close>: an exception of the first lines leaves the call before any backend is
  called.\<close>

definition CacheManager_set ::
  "(string \<Rightarrow> string) \<Rightarrow> (nat \<Rightarrow> int) \<Rightarrow> string \<Rightarrow> bytes \<Rightarrow> int option
     \<Rightarrow> (string \<times> string) list option \<Rightarrow> backend list \<Rightarrow> (py_error + bool) \<times> backend list" where
  "CacheManager_set md5 clk k d ttl md bs =
     (case expiration (clk 0) ttl of
        Inl err \<Rightarrow> (Inl err, bs)
      | Inr exp \<Rightarrow>
          (case set_loop md5 (tick (tick clk)) (new_entry (clk 1) k d exp md) False bs of
             (success, bs') \<Rightarrow> (Inr success, bs')))"

fun delete_loop ::
  "(string \<Rightarrow> string) \<Rightarrow> (nat \<Rightarrow> int) \<Rightarrow> string \<Rightarrow> bool \<Rightarrow> backend list
     \<Rightarrow> bool \<times> backend list" where
  "delete_loop md5 clk k success [] = (success, [])"
| "delete_loop md5 clk k success (b # bs) =
     (case backend_delete md5 (clk 0) k b of
        (Inr True, b') \<Rightarrow>
          (case delete_loop md5 (tick clk) k True bs of (r, bs') \<Rightarrow> (r, b' # bs'))
      | (Inr False, b') \<Rightarrow>
          (case delete_loop md5 (tick clk) k success bs of (r, bs') \<Rightarrow> (r, b' # bs'))
      | (Inl err, b') \<Rightarrow>
          (case delete_loop md5 (tick clk) k success bs of (r, bs') \<Rightarrow> (r, b' # bs')))"

definition CacheManager_delete ::
  "(string \<Rightarrow> string) \<Rightarrow> (nat \<Rightarrow> int) \<Rightarrow> string \<Rightarrow> backend list \<Rightarrow> bool \<times> backend list" where
  "CacheManager_delete md5 clk k bs = delete_loop md5 clk k False bs"

fun CacheManager_exists ::
  "(string \<Rightarrow> string) \<Rightarrow> (nat \<Rightarrow> int) \<Rightarrow> string \<Rightarrow> backend list \<Rightarrow> bool" where
  "CacheManager_exists md5 clk k [] = False"
| "CacheManager_exists md5 clk k (b # bs) =
     (case backend_exists md5 (clk 0) k b of
        Inr True \<Rightarrow> True
      | Inr False \<Rightarrow> CacheManager_exists md5 (tick clk) k bs
      | Inl err \<Rightarrow> CacheManager_exists md5 (tick clk) k bs)"



subsection \<open>Cache key generators\<close>

definition generate_build_cache_key :: "string \<Rightarrow> string \<Rightarrow> string \<Rightarrow> string" where
  "generate_build_cache_key repo_name commit_hash build_type =
     ''build:'' @ repo_name @ '':'' @ commit_hash @ '':'' @ build_type"

definition generate_binding_cache_key :: "string \<Rightarrow> string \<Rightarrow> string \<Rightarrow> string" where
  "generate_binding_cache_key repo_name generator commit_hash =
     ''binding:'' @ repo_name @ '':'' @ generator @ '':'' @ commit_hash"

definition generate_dependency_cache_key :: "string \<Rightarrow> string \<Rightarrow> string" where
  "generate_dependency_cache_key dependency_name version = ''dep:'' @ dependency_name @ '':'' @ version"

definition generate_file_hash_cache_key :: "string \<Rightarrow> string" where
  "generate_file_hash_cache_key file_path = ''hash:'' @ file_path"

subsection \<open>Example stores\<close>

text \<open>One entry for the key \<open>k\<close> that expires one second after time 0, as each of the three
  backends holds it (the local files are named by the identity in place of the hash).\<close>

definition example_dict :: entry_dict where
  "example_dict =
     \<lparr>dict_key = ''k'', dict_data = [1], dict_created_at = 0, dict_expires_at = Some 1000000,
      dict_size_bytes = 16, dict_metadata = []\<rparr>"

definition example_local :: local_backend where
  "example_local =
     \<lparr>local_cache_dir = ''.cache/universal_recycle'', local_default_ttl = 3600, local_up = True,
      local_files = [''k.cache'' \<mapsto> example_dict]\<rparr>"

definition example_redis :: redis_backend where
  "example_redis =
     \<lparr>redis_prefix = ''universal_recycle:'', redis_default_ttl = 3600, redis_up = True,
      redis_db = [''universal_recycle:k'' \<mapsto> (example_dict, 3000000)]\<rparr>"

definition example_object :: s3_object where
  "example_object =
     \<lparr>body = example_dict, meta_created_at = 0, meta_size_bytes = 16, meta_expires_at = Some 1000000\<rparr>"

definition example_s3 :: s3_backend where
  "example_s3 =
     \<lparr>s3_bucket_name = ''bucket'', s3_prefix = ''universal_recycle/'', s3_default_ttl = 3600,
      s3_up = True, s3_objects = [''universal_recycle/k'' \<mapsto> example_object]\<rparr>"

text \<open>A second local backend, which holds for \<open>k\<close> an entry that never expires.\<close>

definition example_fresh_dict :: entry_dict where
  "example_fresh_dict =
     \<lparr>dict_key = ''k'', dict_data = [2], dict_created_at = 0, dict_expires_at = None,
      dict_size_bytes = 16, dict_metadata = []\<rparr>"

definition example_local_fresh :: local_backend where
  "example_local_fresh =
     \<lparr>local_cache_dir = ''.cache/second'', local_default_ttl = 3600, local_up = True,
      local_files = [''k.cache'' \<mapsto> example_fresh_dict]\<rparr>"


definition example_redis_empty :: redis_backend where
  "example_redis_empty =
     \<lparr>redis_prefix = ''universal_recycle:'', redis_default_ttl = 3600, redis_up = True,
      redis_db = Map.empty\<rparr>"

definition example_s3_empty :: s3_backend where
  "example_s3_empty =
     \<lparr>s3_bucket_name = ''bucket'', s3_prefix = ''universal_recycle/'', s3_default_ttl = 3600,
      s3_up = True, s3_objects = Map.empty\<rparr>"

definition example_local_empty :: local_backend where
  "example_local_empty =
     \<lparr>local_cache_dir = ''.cache/universal_recycle'', local_default_ttl = 3600, local_up = True,
      local_files = Map.empty\<rparr>"

text \<open>Midnight of 1 January 2025.\<close>

definition example_now :: int where
  "example_now = 63871286400000000"


subsection \<open>What a read finds\<close>

text \<open>A backend holds a readable entry for a key at a time when its \<^verbatim>\<open>get\<close> returns an
  entry.\<close>

definition readable :: "(string \<Rightarrow> string) \<Rightarrow> int \<Rightarrow> string \<Rightarrow> backend \<Rightarrow> bool" where
  "readable md5 now k b =
     (case fst (backend_get md5 now k b) of Inr (Some e) \<Rightarrow> True | Inr None \<Rightarrow> False | Inl err \<Rightarrow> False)"


section \<open>Properties\<close>

subsection \<open>Unfolding the backends; the dictionary round trip\<close>

lemmas local_defs = LocalCacheBackend_get_def LocalCacheBackend_set_def LocalCacheBackend_delete_def
  LocalCacheBackend_exists_def LocalCacheBackend_init_def get_cache_path_def

lemmas s3_defs = S3CacheBackend_get_def S3CacheBackend_set_def S3CacheBackend_delete_def
  S3CacheBackend_exists_def S3_make_key_def head_object_def get_object_def put_object_def
  delete_object_def

lemmas redis_defs = RedisCacheBackend_get_def RedisCacheBackend_set_def RedisCacheBackend_delete_def
  RedisCacheBackend_exists_def Redis_make_key_def client_get_def client_setex_def
  client_delete_def client_exists_def redis_live_def

lemmas manager_defs = CacheManager_set_def new_entry_def is_expired_def from_dict_def to_dict_def
  total_seconds_int_def readable_def Let_def expiration_def timedelta_seconds_def
  datetime_add_def datetime_max_def tick_def example_now_def

lemma from_dict_to_dict: "from_dict (to_dict e) = e"
  by (cases "expires_at e") (simp_all add: from_dict_def to_dict_def)

subsection \<open>The size recorded in an entry\<close>

lemma length_le_bytes: "length (le_bytes w n) = w"
  by (induction w arbitrary: n) auto

lemma length_pickle_dumps:
  "length (pickle_dumps d) =
     length d + (if length d < 256 then 15 else if length d < 65536 then 18
                 else if length d < 4294967296 then 9 else 13)"
  by (simp add: pickle_dumps_def binbytes_def Let_def length_le_bytes)

text \<open>The model of \<^verbatim>\<open>pickle.dumps\<close> on \<^verbatim>\<open>b"hello"\<close>: the 20 bytes that CPython 3.9 to 3.13
  produce.\<close>

lemma le_bytes_numeral:
  "le_bytes (numeral v) n = word_of_nat (n mod 256) # le_bytes (pred_numeral v) (n div 256)"
  using le_bytes.simps(2) [of "pred_numeral v" n] by (simp only: numeral_eq_Suc [symmetric])

lemma le_bytes_1: "le_bytes 1 n = [word_of_nat (n mod 256)]"
  using le_bytes.simps(2) [of 0 n] by (simp only: One_nat_def [symmetric] le_bytes.simps(1))

lemma pickle_dumps_hello:
  "pickle_dumps [0x68, 0x65, 0x6C, 0x6C, 0x6F] =
     [0x80, 0x04, 0x95, 0x09, 0, 0, 0, 0, 0, 0, 0, 0x43, 0x05, 0x68, 0x65, 0x6C, 0x6C, 0x6F, 0x94, 0x2E]"
  by (simp add: pickle_dumps_def binbytes_def Let_def le_bytes_numeral le_bytes_1)

text \<open>
  Claim C7, as amended. The entry built by \<^verbatim>\<open>CacheManager.set\<close> records in
  \<^verbatim>\<open>size_bytes\<close> the length of \<^verbatim>\<open>pickle.dumps(data)\<close>, the pickled payload, and this is
  strictly more than the length of the payload itself.
\<close>

theorem size_bytes_is_pickled_length:
  "size_bytes (new_entry created k d exp md) = length (pickle_dumps d)
   \<and> length d < length (pickle_dumps d)"
  by (simp add: new_entry_def length_pickle_dumps)

text \<open>
  Claim C7 as stated fails: for the five bytes of \<^verbatim>\<open>b"hello"\<close> the recorded size is the
  20 bytes of the pickle, not 5.
\<close>

theorem size_bytes_not_payload_length:
  "size_bytes (new_entry 0 ''a'' [0x68, 0x65, 0x6C, 0x6C, 0x6F] None None)
     \<noteq> length [0x68, 0x65, 0x6C, 0x6C, 0x6F :: 8 word]"
  by (simp add: new_entry_def length_pickle_dumps)

subsection \<open>Key derivation\<close>

lemma split_at_colon:
  "CHR '':'' \<notin> set a \<Longrightarrow> CHR '':'' \<notin> set b \<Longrightarrow> a @ CHR '':'' # x = b @ CHR '':'' # y \<Longrightarrow> a = b \<and> x = y"
proof (induction a arbitrary: b)
  case Nil
  then show ?case by (cases b) auto
next
  case (Cons c a)
  then show ?case by (cases b) auto
qed

lemma build_key_inj:
  assumes "CHR '':'' \<notin> set r1" "CHR '':'' \<notin> set c1" "CHR '':'' \<notin> set r2" "CHR '':'' \<notin> set c2"
    and eq: "generate_build_cache_key r1 c1 t1 = generate_build_cache_key r2 c2 t2"
  shows "r1 = r2 \<and> c1 = c2 \<and> t1 = t2"
proof -
  from eq have "r1 @ CHR '':'' # (c1 @ CHR '':'' # t1) = r2 @ CHR '':'' # (c2 @ CHR '':'' # t2)"
    by (simp add: generate_build_cache_key_def)
  with assms(1,3) have "r1 = r2" and "c1 @ CHR '':'' # t1 = c2 @ CHR '':'' # t2"
    using split_at_colon by blast+
  with assms(2,4) show ?thesis using split_at_colon by blast
qed

lemma binding_key_inj:
  assumes "CHR '':'' \<notin> set r1" "CHR '':'' \<notin> set g1" "CHR '':'' \<notin> set r2" "CHR '':'' \<notin> set g2"
    and eq: "generate_binding_cache_key r1 g1 h1 = generate_binding_cache_key r2 g2 h2"
  shows "r1 = r2 \<and> g1 = g2 \<and> h1 = h2"
proof -
  from eq have "r1 @ CHR '':'' # (g1 @ CHR '':'' # h1) = r2 @ CHR '':'' # (g2 @ CHR '':'' # h2)"
    by (simp add: generate_binding_cache_key_def)
  with assms(1,3) have "r1 = r2" and "g1 @ CHR '':'' # h1 = g2 @ CHR '':'' # h2"
    using split_at_colon by blast+
  with assms(2,4) show ?thesis using split_at_colon by blast
qed

lemma dependency_key_inj:
  assumes "CHR '':'' \<notin> set n1" "CHR '':'' \<notin> set n2"
    and eq: "generate_dependency_cache_key n1 v1 = generate_dependency_cache_key n2 v2"
  shows "n1 = n2 \<and> v1 = v2"
proof -
  from eq have "n1 @ CHR '':'' # v1 = n2 @ CHR '':'' # v2"
    by (simp add: generate_dependency_cache_key_def)
  with assms(1,2) show ?thesis using split_at_colon by blast
qed

lemma keys_across_generators:
  "generate_build_cache_key r c t \<noteq> generate_binding_cache_key r' g h"
  "generate_build_cache_key r c t \<noteq> generate_dependency_cache_key n v"
  "generate_binding_cache_key r' g h \<noteq> generate_dependency_cache_key n v"
  by (simp_all add: generate_build_cache_key_def generate_binding_cache_key_def
      generate_dependency_cache_key_def)

text \<open>
  Claim C9, as amended. When no component other than the last of a tuple contains the
  separator \<open>:\<close>, two distinct tuples have distinct keys under each generator (build: repository
  name \<open>a\<close>, commit hash \<open>b\<close>, build type \<open>z\<close>; binding: repository name \<open>a\<close>,
  generator \<open>b\<close>, commit hash \<open>z\<close>; dependency: name \<open>a\<close>, version \<open>z\<close>). Keys
  of two different generators differ whatever the components are.
\<close>

theorem keys_distinct_without_separator:
  assumes "CHR '':'' \<notin> set a1" "CHR '':'' \<notin> set b1" "CHR '':'' \<notin> set a2" "CHR '':'' \<notin> set b2"
  shows "((a1, b1, z1) \<noteq> (a2, b2, z2) \<longrightarrow>
            generate_build_cache_key a1 b1 z1 \<noteq> generate_build_cache_key a2 b2 z2)
       \<and> ((a1, b1, z1) \<noteq> (a2, b2, z2) \<longrightarrow>
            generate_binding_cache_key a1 b1 z1 \<noteq> generate_binding_cache_key a2 b2 z2)
       \<and> ((a1, z1) \<noteq> (a2, z2) \<longrightarrow>
            generate_dependency_cache_key a1 z1 \<noteq> generate_dependency_cache_key a2 z2)
       \<and> generate_build_cache_key r c t \<noteq> generate_binding_cache_key r' g h
       \<and> generate_build_cache_key r c t \<noteq> generate_dependency_cache_key n v
       \<and> generate_binding_cache_key r' g h \<noteq> generate_dependency_cache_key n v"
  using assms build_key_inj [of a1 b1 a2 b2 z1 z2] binding_key_inj [of a1 b1 a2 b2 z1 z2]
    dependency_key_inj [of a1 a2 z1 z2] keys_across_generators
  by blast

theorem keys_distinct_without_separator_witness:
  "CHR '':'' \<notin> set ''repo'' \<and> CHR '':'' \<notin> set ''abc123'' \<and> CHR '':'' \<notin> set ''abc124''
   \<and> (''repo'', ''abc123'', ''release'') \<noteq> (''repo'', ''abc124'', ''release'')
   \<and> generate_build_cache_key ''repo'' ''abc123'' ''release''
       \<noteq> generate_build_cache_key ''repo'' ''abc124'' ''release''
   \<and> generate_binding_cache_key ''repo'' ''abc123'' ''release''
       \<noteq> generate_binding_cache_key ''repo'' ''abc124'' ''release''
   \<and> (''repo'', ''release'') \<noteq> (''repo'', ''debug'')
   \<and> generate_dependency_cache_key ''repo'' ''release'' \<noteq> generate_dependency_cache_key ''repo'' ''debug''"
proof -
  have h: "CHR '':'' \<notin> set ''repo''" "CHR '':'' \<notin> set ''abc123''" "CHR '':'' \<notin> set ''abc124''"
    by simp_all
  show ?thesis
    using h
      keys_distinct_without_separator
        [of "''repo''" "''abc123''" "''repo''" "''abc124''" "''release''" "''release''"]
      keys_distinct_without_separator
        [of "''repo''" "''abc123''" "''repo''" "''abc123''" "''release''" "''debug''"]
    by simp
qed

text \<open>
  Claim C9 as stated fails: a separator inside a component moves the boundary between two
  components, so two distinct build tuples have the same key.
\<close>

theorem build_key_collision:
  "generate_build_cache_key ''a:b'' ''c'' ''d'' = generate_build_cache_key ''a'' ''b:c'' ''d''
   \<and> (''a:b'', ''c'', ''d'') \<noteq> (''a'', ''b:c'', ''d'')"
  by (simp add: generate_build_cache_key_def)

subsection \<open>A time to live of zero\<close>

text \<open>
  Claim C10. \<^verbatim>\<open>CacheManager.set\<close> with \<^verbatim>\<open>ttl=0\<close> is not rejected: the test \<^verbatim>\<open>if ttl:\<close>
  fails for \<open>0\<close>, so the expiration is \<^verbatim>\<open>None\<close>, the entry built with it has no
  \<^verbatim>\<open>expires_at\<close> and is never expired, and the call is the call without a \<^verbatim>\<open>ttl\<close>. The
  Redis backend then stores the entry under its own default TTL instead of rejecting it, and
  a local backend whose file system works accepts it and returns it at every later time.
\<close>

theorem zero_ttl_is_no_ttl:
  "expiration now (Some 0) = Inr None
   \<and> expires_at (new_entry created k d None md) = None
   \<and> \<not> is_expired t (new_entry created k d None md)
   \<and> CacheManager_set md5 clk k d (Some 0) md bs = CacheManager_set md5 clk k d None md bs
   \<and> RedisCacheBackend_set now (new_entry created k d None md) rb =
       (case client_setex now (Redis_make_key rb k) (redis_default_ttl rb)
               (to_dict (new_entry created k d None md)) rb of
          Inl err \<Rightarrow> (False, rb) | Inr rb' \<Rightarrow> (True, rb'))
   \<and> fst (CacheManager_set md5 clk k d (Some 0) md [Local (lb\<lparr>local_up := True\<rparr>)]) = Inr True
   \<and> fst (CacheManager_get md5 clk' k
            (snd (CacheManager_set md5 clk k d (Some 0) md [Local (lb\<lparr>local_up := True\<rparr>)])))
       = Some (new_entry (clk 1) k d None md)"
proof -
  let ?e = "new_entry created k d None md"
  have x: "expiration now (Some 0) = Inr None" for now
    by (simp add: expiration_def)
  have e: "expires_at (new_entry c k d None md) = None" and k: "key (new_entry c k d None md) = k" for c
    by (simp_all add: new_entry_def)
  have 1: "\<not> is_expired t (new_entry c k d None md)" for c t
    by (simp add: is_expired_def e)
  have 2: "CacheManager_set md5 clk k d (Some 0) md bs = CacheManager_set md5 clk k d None md bs"
    by (simp add: CacheManager_set_def expiration_def)
  have 3: "RedisCacheBackend_set now ?e rb =
       (case client_setex now (Redis_make_key rb k) (redis_default_ttl rb) (to_dict ?e) rb of
          Inl err \<Rightarrow> (False, rb) | Inr rb' \<Rightarrow> (True, rb'))"
    by (simp add: RedisCacheBackend_set_def e k)
  have 4: "CacheManager_set md5 clk k d (Some 0) md [Local (lb\<lparr>local_up := True\<rparr>)]
      = (Inr True, [Local (lb\<lparr>local_up := True,
            local_files := (local_files lb)(get_cache_path md5 k \<mapsto> to_dict (new_entry (clk 1) k d None md))\<rparr>)])"
    by (simp add: CacheManager_set_def x LocalCacheBackend_set_def k)
  have 5: "fst (CacheManager_get md5 clk' k
            (snd (CacheManager_set md5 clk k d (Some 0) md [Local (lb\<lparr>local_up := True\<rparr>)])))
       = Some (new_entry (clk 1) k d None md)"
    unfolding 4 by (simp add: LocalCacheBackend_get_def Let_def from_dict_to_dict 1)
  from x e 1 2 3 4 5 show ?thesis by simp
qed

subsection \<open>Where a backend departs from its siblings\<close>

text \<open>
  Claim C6 on the code. \<^verbatim>\<open>S3CacheBackend.delete\<close> returns \<^verbatim>\<open>True\<close> whenever
  \<^verbatim>\<open>delete_object\<close> does not raise, and \<^verbatim>\<open>delete_object\<close> succeeds on a key that has no
  object: on an empty bucket the delete of \<open>k\<close> returns true, from the backend and from
  the manager. On an empty store the Redis and the local backend return false.
\<close>

theorem s3_delete_missing_key_returns_true:
  "fst (S3CacheBackend_delete ''k'' example_s3_empty) = True
   \<and> fst (CacheManager_delete md5 (\<lambda>i. 0) ''k'' [S3 example_s3_empty]) = True
   \<and> fst (RedisCacheBackend_delete 0 ''k'' example_redis_empty) = False
   \<and> fst (LocalCacheBackend_delete md5 ''k'' example_local_empty) = False"
  by (simp add: CacheManager_delete_def s3_defs redis_defs local_defs example_redis_empty_def
      example_s3_empty_def example_local_empty_def)

text \<open>
  Claim C4 on the code. A local backend is configured with \<^verbatim>\<open>default_ttl=1\<close> and
  \<^verbatim>\<open>set("a", b"hello")\<close> is called at time 0 without a \<^verbatim>\<open>ttl\<close>. The \<^verbatim>\<open>get("a")\<close> that
  follows at once returns \<^verbatim>\<open>b"hello"\<close>; five seconds later \<^verbatim>\<open>get("a")\<close> still returns
  \<^verbatim>\<open>b"hello"\<close> and \<^verbatim>\<open>exists("a")\<close> is still true: \<^verbatim>\<open>LocalCacheBackend\<close> reads
  \<^verbatim>\<open>default_ttl\<close> from its configuration and never uses it. A Redis backend with the same
  \<^verbatim>\<open>default_ttl\<close> has dropped the entry by then.
\<close>

theorem local_default_ttl_not_applied:
  "fst (CacheManager_set md5 (\<lambda>i. 0) ''a'' [0x68, 0x65, 0x6C, 0x6C, 0x6F] None None
          [Local (LocalCacheBackend_init \<lparr>cfg_cache_dir = None, cfg_default_ttl = Some 1\<rparr> Map.empty)])
       = Inr True
   \<and> map_option data (fst (CacheManager_get md5 (\<lambda>i. 0) ''a''
        (snd (CacheManager_set md5 (\<lambda>i. 0) ''a'' [0x68, 0x65, 0x6C, 0x6C, 0x6F] None None
          [Local (LocalCacheBackend_init \<lparr>cfg_cache_dir = None, cfg_default_ttl = Some 1\<rparr> Map.empty)]))))
       = Some [0x68, 0x65, 0x6C, 0x6C, 0x6F]
   \<and> map_option data (fst (CacheManager_get md5 (\<lambda>i. 5000000) ''a''
        (snd (CacheManager_set md5 (\<lambda>i. 0) ''a'' [0x68, 0x65, 0x6C, 0x6C, 0x6F] None None
          [Local (LocalCacheBackend_init \<lparr>cfg_cache_dir = None, cfg_default_ttl = Some 1\<rparr> Map.empty)]))))
       = Some [0x68, 0x65, 0x6C, 0x6C, 0x6F]
   \<and> CacheManager_exists md5 (\<lambda>i. 5000000) ''a''
        (snd (CacheManager_set md5 (\<lambda>i. 0) ''a'' [0x68, 0x65, 0x6C, 0x6C, 0x6F] None None
          [Local (LocalCacheBackend_init \<lparr>cfg_cache_dir = None, cfg_default_ttl = Some 1\<rparr> Map.empty)]))
   \<and> fst (CacheManager_get md5 (\<lambda>i. 5000000) ''a''
        (snd (CacheManager_set md5 (\<lambda>i. 0) ''a'' [0x68, 0x65, 0x6C, 0x6C, 0x6F] None None
          [Redis (example_redis_empty\<lparr>redis_default_ttl := 1\<rparr>)]))) = None
   \<and> \<not> CacheManager_exists md5 (\<lambda>i. 5000000) ''a''
        (snd (CacheManager_set md5 (\<lambda>i. 0) ''a'' [0x68, 0x65, 0x6C, 0x6C, 0x6F] None None
          [Redis (example_redis_empty\<lparr>redis_default_ttl := 1\<rparr>)]))"
  by (simp add: manager_defs local_defs redis_defs example_redis_empty_def)

text \<open>
  Claim C2 on the code. \<^verbatim>\<open>set("k", b"v", ttl=-1)\<close>, called at midnight of 1 January 2025 on
  a manager with one local backend, or with one S3 backend, returns true and leaves the entry
  in the store, where \<^verbatim>\<open>exists\<close> finds it. Only \<^verbatim>\<open>RedisCacheBackend.set\<close> computes the
  remaining time to live and rejects a write for which it is not positive: with one Redis
  backend the same call returns false.
\<close>

theorem local_and_s3_accept_negative_ttl:
  "fst (CacheManager_set md5 (\<lambda>i. example_now) ''k'' [0x76] (Some (- 1)) None
          [Local example_local_empty]) = Inr True
   \<and> CacheManager_exists md5 (\<lambda>i. example_now) ''k''
        (snd (CacheManager_set md5 (\<lambda>i. example_now) ''k'' [0x76] (Some (- 1)) None
                [Local example_local_empty]))
   \<and> fst (CacheManager_set md5 (\<lambda>i. example_now) ''k'' [0x76] (Some (- 1)) None
          [S3 example_s3_empty]) = Inr True
   \<and> CacheManager_exists md5 (\<lambda>i. example_now) ''k''
        (snd (CacheManager_set md5 (\<lambda>i. example_now) ''k'' [0x76] (Some (- 1)) None
                [S3 example_s3_empty]))
   \<and> fst (CacheManager_set md5 (\<lambda>i. example_now) ''k'' [0x76] (Some (- 1)) None
          [Redis example_redis_empty]) = Inr False"
  by (simp add: manager_defs local_defs s3_defs redis_defs example_local_empty_def
      example_s3_empty_def example_redis_empty_def)

subsection \<open>Lazy eviction on read\<close>

text \<open>An object written by \<^verbatim>\<open>S3CacheBackend.set\<close> carries in its metadata the
  \<^verbatim>\<open>expires_at\<close> of the entry in its body.\<close>

lemma S3_set_writes_expiry:
  "S3CacheBackend_set e sb = (True, sb') \<Longrightarrow>
     \<exists>ob. s3_objects sb' (S3_make_key sb' (key e)) = Some ob
        \<and> meta_expires_at ob = expires_at (from_dict (body ob)) \<and> from_dict (body ob) = e"
  by (cases "expires_at e")
    (auto simp: s3_defs from_dict_to_dict split: if_splits)

lemma local_expired_evicted:
  assumes "local_up lb" "local_files lb (get_cache_path md5 k) = Some d"
    "expires_at (from_dict d) = Some t" "t < now"
  shows "LocalCacheBackend_get md5 now k lb = (None, snd (LocalCacheBackend_delete md5 k lb))"
    and "fst (LocalCacheBackend_delete md5 k lb)"
    and "\<not> LocalCacheBackend_exists md5 k (snd (LocalCacheBackend_get md5 now k lb))"
  using assms
  by (simp_all add: LocalCacheBackend_get_def LocalCacheBackend_delete_def
      LocalCacheBackend_exists_def is_expired_def Let_def)

lemma redis_expired_evicted:
  assumes "redis_up rb" "redis_db rb (Redis_make_key rb k) = Some (d, deadline)" "now < deadline"
    "expires_at (from_dict d) = Some t" "t < now"
  shows "RedisCacheBackend_get now k rb = (None, snd (RedisCacheBackend_delete now k rb))"
    and "fst (RedisCacheBackend_delete now k rb)"
    and "\<not> RedisCacheBackend_exists now k (snd (RedisCacheBackend_get now k rb))"
  using assms
  by (simp_all add: RedisCacheBackend_get_def RedisCacheBackend_delete_def
      RedisCacheBackend_exists_def client_get_def client_delete_def client_exists_def
      redis_live_def Redis_make_key_def is_expired_def Let_def)

lemma s3_expired_evicted:
  assumes "s3_up sb" "s3_objects sb (S3_make_key sb k) = Some ob"
    "meta_expires_at ob = expires_at (from_dict (body ob))"
    "expires_at (from_dict (body ob)) = Some t" "t < now"
  shows "S3CacheBackend_get now k sb = (None, snd (S3CacheBackend_delete k sb))"
    and "fst (S3CacheBackend_delete k sb)"
    and "\<not> S3CacheBackend_exists k (snd (S3CacheBackend_get now k sb))"
  using assms
  by (simp_all add: S3CacheBackend_get_def S3CacheBackend_delete_def S3CacheBackend_exists_def
      head_object_def delete_object_def S3_make_key_def Let_def)

text \<open>
  Claim C3. A backend whose store works holds an entry for the key whose \<^verbatim>\<open>expires_at\<close>
  is in the past (in Redis the key has not been dropped by the server yet; in S3 the object
  metadata carries the entry's \<^verbatim>\<open>expires_at\<close>, as \<^verbatim>\<open>set\<close> writes it). Then \<^verbatim>\<open>get\<close>
  returns absent and leaves the backend in the state its own \<^verbatim>\<open>delete\<close> of that key
  produces; that delete removes the entry, and the key no longer exists afterwards. This holds
  for the local, the Redis and the S3 backend.
\<close>

theorem expired_entry_evicted_on_get:
  "(local_up lb \<and> local_files lb (get_cache_path md5 k) = Some d
      \<and> expires_at (from_dict d) = Some t \<and> t < now
    \<longrightarrow> LocalCacheBackend_get md5 now k lb = (None, snd (LocalCacheBackend_delete md5 k lb))
        \<and> fst (LocalCacheBackend_delete md5 k lb)
        \<and> \<not> LocalCacheBackend_exists md5 k (snd (LocalCacheBackend_get md5 now k lb)))
   \<and> (redis_up rb \<and> redis_db rb (Redis_make_key rb k) = Some (d, deadline) \<and> now < deadline
      \<and> expires_at (from_dict d) = Some t \<and> t < now
    \<longrightarrow> RedisCacheBackend_get now k rb = (None, snd (RedisCacheBackend_delete now k rb))
        \<and> fst (RedisCacheBackend_delete now k rb)
        \<and> \<not> RedisCacheBackend_exists now k (snd (RedisCacheBackend_get now k rb)))
   \<and> (s3_up sb \<and> s3_objects sb (S3_make_key sb k) = Some ob
      \<and> meta_expires_at ob = expires_at (from_dict (body ob))
      \<and> expires_at (from_dict (body ob)) = Some t \<and> t < now
    \<longrightarrow> S3CacheBackend_get now k sb = (None, snd (S3CacheBackend_delete k sb))
        \<and> fst (S3CacheBackend_delete k sb)
        \<and> \<not> S3CacheBackend_exists k (snd (S3CacheBackend_get now k sb)))"
proof (intro conjI impI)
  assume "local_up lb \<and> local_files lb (get_cache_path md5 k) = Some d
      \<and> expires_at (from_dict d) = Some t \<and> t < now"
  then have h: "local_up lb" "local_files lb (get_cache_path md5 k) = Some d"
    "expires_at (from_dict d) = Some t" "t < now"
    by simp_all
  from local_expired_evicted [OF h]
  show "LocalCacheBackend_get md5 now k lb = (None, snd (LocalCacheBackend_delete md5 k lb))"
    and "fst (LocalCacheBackend_delete md5 k lb)"
    and "\<not> LocalCacheBackend_exists md5 k (snd (LocalCacheBackend_get md5 now k lb))"
    by simp_all
next
  assume "redis_up rb \<and> redis_db rb (Redis_make_key rb k) = Some (d, deadline) \<and> now < deadline
      \<and> expires_at (from_dict d) = Some t \<and> t < now"
  then have h: "redis_up rb" "redis_db rb (Redis_make_key rb k) = Some (d, deadline)" "now < deadline"
    "expires_at (from_dict d) = Some t" "t < now"
    by simp_all
  from redis_expired_evicted [OF h]
  show "RedisCacheBackend_get now k rb = (None, snd (RedisCacheBackend_delete now k rb))"
    and "fst (RedisCacheBackend_delete now k rb)"
    and "\<not> RedisCacheBackend_exists now k (snd (RedisCacheBackend_get now k rb))"
    by simp_all
next
  assume "s3_up sb \<and> s3_objects sb (S3_make_key sb k) = Some ob
      \<and> meta_expires_at ob = expires_at (from_dict (body ob))
      \<and> expires_at (from_dict (body ob)) = Some t \<and> t < now"
  then have h: "s3_up sb" "s3_objects sb (S3_make_key sb k) = Some ob"
    "meta_expires_at ob = expires_at (from_dict (body ob))"
    "expires_at (from_dict (body ob)) = Some t" "t < now"
    by simp_all
  from s3_expired_evicted [OF h]
  show "S3CacheBackend_get now k sb = (None, snd (S3CacheBackend_delete k sb))"
    and "fst (S3CacheBackend_delete k sb)"
    and "\<not> S3CacheBackend_exists k (snd (S3CacheBackend_get now k sb))"
    by simp_all
qed

theorem expired_entry_evicted_on_get_witness:
  "local_up example_local
   \<and> local_files example_local (get_cache_path (\<lambda>k. k) ''k'') = Some example_dict
   \<and> expires_at (from_dict example_dict) = Some 1000000 \<and> (1000000 :: int) < 2000000
   \<and> LocalCacheBackend_get (\<lambda>k. k) 2000000 ''k'' example_local
       = (None, snd (LocalCacheBackend_delete (\<lambda>k. k) ''k'' example_local))
   \<and> redis_up example_redis
   \<and> redis_db example_redis (Redis_make_key example_redis ''k'') = Some (example_dict, 3000000)
   \<and> (2000000 :: int) < 3000000
   \<and> RedisCacheBackend_get 2000000 ''k'' example_redis
       = (None, snd (RedisCacheBackend_delete 2000000 ''k'' example_redis))
   \<and> s3_up example_s3
   \<and> s3_objects example_s3 (S3_make_key example_s3 ''k'') = Some example_object
   \<and> meta_expires_at example_object = expires_at (from_dict (body example_object))
   \<and> S3CacheBackend_get 2000000 ''k'' example_s3
       = (None, snd (S3CacheBackend_delete ''k'' example_s3))"
proof -
  have l: "local_up example_local"
    "local_files example_local (get_cache_path (\<lambda>k. k) ''k'') = Some example_dict"
    by (simp_all add: example_local_def get_cache_path_def)
  have e: "expires_at (from_dict example_dict) = Some 1000000"
    by (simp add: example_dict_def from_dict_def)
  have r: "redis_up example_redis"
    "redis_db example_redis (Redis_make_key example_redis ''k'') = Some (example_dict, 3000000)"
    by (simp_all add: example_redis_def Redis_make_key_def)
  have s: "s3_up example_s3"
    "s3_objects example_s3 (S3_make_key example_s3 ''k'') = Some example_object"
    "meta_expires_at example_object = expires_at (from_dict (body example_object))"
    by (simp_all add: example_s3_def example_object_def S3_make_key_def example_dict_def from_dict_def)
  have b: "body example_object = example_dict"
    by (simp add: example_object_def)
  show ?thesis
    using l e r s b
      expired_entry_evicted_on_get [of example_local "\<lambda>k. k" "''k''" example_dict 1000000 2000000
        example_redis 3000000 example_s3 example_object]
    by simp
qed

subsection \<open>The loops of the manager, one backend at a time\<close>

lemma fst_get_Cons:
  "fst (CacheManager_get md5 clk k (b # bs)) =
     (case fst (backend_get md5 (clk 0) k b) of
        Inr (Some entry) \<Rightarrow> Some entry
      | Inr None \<Rightarrow> fst (CacheManager_get md5 (tick clk) k bs)
      | Inl err \<Rightarrow> fst (CacheManager_get md5 (tick clk) k bs))"
  by (simp split: prod.splits sum.splits option.splits)








lemma snd_get_Cons:
  "snd (CacheManager_get md5 clk k (b # bs)) =
     snd (backend_get md5 (clk 0) k b) #
     (case fst (backend_get md5 (clk 0) k b) of
        Inr (Some entry) \<Rightarrow> bs
      | Inr None \<Rightarrow> snd (CacheManager_get md5 (tick clk) k bs)
      | Inl err \<Rightarrow> snd (CacheManager_get md5 (tick clk) k bs))"
  by (simp split: prod.splits sum.splits option.splits)

subsection \<open>Fallback reads\<close>

lemma local_get_cases:
  "LocalCacheBackend_get md5 now k lb = (r, lb') \<Longrightarrow>
     (r \<noteq> None \<and> lb' = lb) \<or>
     (r = None \<and> (lb' = lb \<or> lb' = snd (LocalCacheBackend_delete md5 k lb))
        \<and> fst (LocalCacheBackend_get md5 now k lb') = None)"
  by (auto simp: LocalCacheBackend_get_def LocalCacheBackend_delete_def Let_def
      split: if_splits option.splits)

lemma redis_get_cases:
  "RedisCacheBackend_get now k rb = (r, rb') \<Longrightarrow>
     (r \<noteq> None \<and> rb' = rb) \<or>
     (r = None \<and> (rb' = rb \<or> rb' = snd (RedisCacheBackend_delete now k rb))
        \<and> fst (RedisCacheBackend_get now k rb') = None)"
  by (auto simp: RedisCacheBackend_get_def RedisCacheBackend_delete_def client_get_def
      client_delete_def redis_live_def Redis_make_key_def Let_def
      split: if_splits option.splits sum.splits prod.splits)

lemma s3_get_cases:
  "S3CacheBackend_get now k sb = (r, sb') \<Longrightarrow>
     (r \<noteq> None \<and> sb' = sb) \<or>
     (r = None \<and> (sb' = sb \<or> sb' = snd (S3CacheBackend_delete k sb))
        \<and> fst (S3CacheBackend_get now k sb') = None)"
  by (auto simp: S3CacheBackend_get_def S3CacheBackend_delete_def head_object_def get_object_def
      delete_object_def S3_make_key_def Let_def
      split: if_splits option.splits sum.splits)

lemma backend_get_cases:
  assumes "backend_get md5 now k b = (r, b')"
  shows "((\<exists>e. r = Inr (Some e)) \<and> b' = b) \<or>
     ((\<forall>e. r \<noteq> Inr (Some e)) \<and> (b' = b \<or> b' = snd (backend_delete md5 now k b))
        \<and> \<not> readable md5 now k b')"
proof (cases b)
  case Base
  with assms show ?thesis by (auto simp: readable_def)
next
  case (Redis rb)
  obtain x rb' where g: "RedisCacheBackend_get now k rb = (x, rb')" by (cases "RedisCacheBackend_get now k rb")
  from redis_get_cases [OF g] g Redis assms show ?thesis
    by (auto simp: readable_def split: prod.splits)
next
  case (S3 sb)
  obtain x sb' where g: "S3CacheBackend_get now k sb = (x, sb')" by (cases "S3CacheBackend_get now k sb")
  from s3_get_cases [OF g] g S3 assms show ?thesis
    by (auto simp: readable_def split: prod.splits)
next
  case (Local lb)
  obtain x lb' where g: "LocalCacheBackend_get md5 now k lb = (x, lb')" by (cases "LocalCacheBackend_get md5 now k lb")
  from local_get_cases [OF g] g Local assms show ?thesis
    by (auto simp: readable_def split: prod.splits)
qed

lemma readable_iff: "readable md5 now k b \<longleftrightarrow> (\<exists>e. fst (backend_get md5 now k b) = Inr (Some e))"
  by (auto simp: readable_def split: sum.splits option.splits)

lemma get_first_readable:
  assumes "i < length bs" "fst (backend_get md5 (clk i) k (bs ! i)) = Inr (Some e)"
    "\<forall>j<i. \<not> readable md5 (clk j) k (bs ! j)"
  shows "fst (CacheManager_get md5 clk k bs) = Some e
     \<and> length (snd (CacheManager_get md5 clk k bs)) = length bs
     \<and> drop i (snd (CacheManager_get md5 clk k bs)) = drop i bs
     \<and> (\<forall>j<i. (snd (CacheManager_get md5 clk k bs) ! j = bs ! j
                 \<or> snd (CacheManager_get md5 clk k bs) ! j = snd (backend_delete md5 (clk j) k (bs ! j)))
              \<and> \<not> readable md5 (clk j) k (snd (CacheManager_get md5 clk k bs) ! j))"
  using assms
proof (induction bs arbitrary: i clk)
  case Nil
  then show ?case by simp
next
  case (Cons b bs)
  obtain r b1 where g: "backend_get md5 (clk 0) k b = (r, b1)"
    by (cases "backend_get md5 (clk 0) k b")
  show ?case
  proof (cases i)
    case 0
    with Cons.prems g have r: "r = Inr (Some e)" by simp
    with backend_get_cases [OF g] have "b1 = b" by auto
    with g r 0 show ?thesis
      by (simp del: CacheManager_get.simps add: fst_get_Cons snd_get_Cons)
  next
    case (Suc n)
    define c where "c = tick clk"
    have c: "c j = clk (Suc j)" for j
      by (simp add: c_def tick_def)
    from Cons.prems Suc have "\<not> readable md5 (clk 0) k b" by auto
    with g have miss: "\<forall>e. r \<noteq> Inr (Some e)" by (simp add: readable_iff)
    with backend_get_cases [OF g]
    have st: "b1 = b \<or> b1 = snd (backend_delete md5 (clk 0) k b)" and after: "\<not> readable md5 (clk 0) k b1"
      by auto
    from Cons.prems Suc have n1: "n < length bs"
      and n2: "fst (backend_get md5 (c n) k (bs ! n)) = Inr (Some e)"
      by (simp_all add: c)
    have n3: "\<forall>j<n. \<not> readable md5 (c j) k (bs ! j)"
    proof (intro allI impI)
      fix j assume "j < n"
      with Suc have "Suc j < i" by simp
      with Cons.prems(3) have "\<not> readable md5 (clk (Suc j)) k ((b # bs) ! Suc j)" by blast
      then show "\<not> readable md5 (c j) k (bs ! j)" by (simp add: c)
    qed
    define rest where "rest = snd (CacheManager_get md5 c k bs)"
    from Cons.IH [OF n1 n2 n3, folded rest_def]
    have ih: "fst (CacheManager_get md5 c k bs) = Some e"
      "length rest = length bs" "drop n rest = drop n bs"
      and ih': "\<forall>j<n. (rest ! j = bs ! j \<or> rest ! j = snd (backend_delete md5 (c j) k (bs ! j)))
              \<and> \<not> readable md5 (c j) k (rest ! j)"
      by simp_all
    from ih' have ih4:
      "\<forall>j<n. (rest ! j = bs ! j \<or> rest ! j = snd (backend_delete md5 (clk (Suc j)) k (bs ! j)))
              \<and> \<not> readable md5 (clk (Suc j)) k (rest ! j)"
      by (simp add: c)
    have fst_eq: "fst (CacheManager_get md5 clk k (b # bs)) = fst (CacheManager_get md5 c k bs)"
      unfolding c_def using g miss
      by (cases r) (auto simp del: CacheManager_get.simps simp add: fst_get_Cons split: option.splits)
    have snd_eq: "snd (CacheManager_get md5 clk k (b # bs)) = b1 # rest"
      unfolding rest_def c_def using g miss
      by (cases r) (auto simp del: CacheManager_get.simps simp add: snd_get_Cons split: option.splits)
    have "\<forall>j<Suc n. ((b1 # rest) ! j = (b # bs) ! j
                 \<or> (b1 # rest) ! j = snd (backend_delete md5 (clk j) k ((b # bs) ! j)))
              \<and> \<not> readable md5 (clk j) k ((b1 # rest) ! j)"
    proof (intro allI impI)
      fix j assume "j < Suc n"
      then show "((b1 # rest) ! j = (b # bs) ! j
                 \<or> (b1 # rest) ! j = snd (backend_delete md5 (clk j) k ((b # bs) ! j)))
              \<and> \<not> readable md5 (clk j) k ((b1 # rest) ! j)"
        using st after ih4 by (cases j) simp_all
    qed
    with ih Suc show ?thesis
      by (simp add: fst_eq snd_eq del: CacheManager_get.simps)
  qed
qed

lemma get_none_readable:
  assumes "\<forall>j<length bs. \<not> readable md5 (clk j) k (bs ! j)"
  shows "fst (CacheManager_get md5 clk k bs) = None"
  using assms
proof (induction bs arbitrary: clk)
  case Nil
  show ?case by simp
next
  case (Cons b bs)
  define c where "c = tick clk"
  have c: "c j = clk (Suc j)" for j
    by (simp add: c_def tick_def)
  from Cons.prems have head: "\<not> readable md5 (clk 0) k b" by auto
  have "\<forall>j<length bs. \<not> readable md5 (c j) k (bs ! j)"
  proof (intro allI impI)
    fix j assume "j < length bs"
    then have "Suc j < length (b # bs)" by simp
    with Cons.prems have "\<not> readable md5 (clk (Suc j)) k ((b # bs) ! Suc j)" by blast
    then show "\<not> readable md5 (c j) k (bs ! j)" by (simp add: c)
  qed
  from Cons.IH [OF this] have "fst (CacheManager_get md5 (tick clk) k bs) = None"
    by (simp add: c_def)
  with head show ?case
    by (simp del: CacheManager_get.simps add: fst_get_Cons readable_def split: sum.splits option.splits)
qed

text \<open>
  Claim C8, as amended. \<^verbatim>\<open>CacheManager.get\<close> returns the entry of the first backend, in the
  configured order, whose \<^verbatim>\<open>get\<close> finds one, and absent when none does. When backend
  \<open>i\<close> serves the hit, the backends from \<open>i\<close> on are unchanged; each earlier backend is
  either unchanged or in the state its own \<^verbatim>\<open>delete\<close> of the key produces (the lazy
  eviction of an expired entry), and it holds no readable entry for the key after the read, as
  before it: nothing is written, promoted or backfilled.
\<close>

theorem get_serves_first_hit_without_backfill:
  "(i < length bs \<and> fst (backend_get md5 (clk i) k (bs ! i)) = Inr (Some e)
      \<and> (\<forall>j<i. \<not> readable md5 (clk j) k (bs ! j))
    \<longrightarrow> fst (CacheManager_get md5 clk k bs) = Some e
        \<and> length (snd (CacheManager_get md5 clk k bs)) = length bs
        \<and> drop i (snd (CacheManager_get md5 clk k bs)) = drop i bs
        \<and> (\<forall>j<i. (snd (CacheManager_get md5 clk k bs) ! j = bs ! j
                    \<or> snd (CacheManager_get md5 clk k bs) ! j
                        = snd (backend_delete md5 (clk j) k (bs ! j)))
                 \<and> \<not> readable md5 (clk j) k (snd (CacheManager_get md5 clk k bs) ! j)))
   \<and> ((\<forall>j<length bs. \<not> readable md5 (clk j) k (bs ! j))
    \<longrightarrow> fst (CacheManager_get md5 clk k bs) = None)"
  using get_first_readable [of i bs md5 clk k e] get_none_readable [of bs md5 clk k]
  by blast

lemma example_get:
  "CacheManager_get (\<lambda>k. k) (\<lambda>i. 2000000) ''k'' [Local example_local, Local example_local_fresh] =
     (Some (from_dict example_fresh_dict),
      [Local (example_local\<lparr>local_files := (local_files example_local)(''k.cache'' := None)\<rparr>),
       Local example_local_fresh])"
  by (simp add: local_defs Let_def is_expired_def example_local_def example_local_fresh_def
      example_dict_def example_fresh_dict_def from_dict_def tick_def)

lemma example_local_evicted:
  "example_local\<lparr>local_files := (local_files example_local)(''k.cache'' := None)\<rparr> \<noteq> example_local"
proof
  assume "example_local\<lparr>local_files := (local_files example_local)(''k.cache'' := None)\<rparr> = example_local"
  then have "local_files (example_local\<lparr>local_files := (local_files example_local)(''k.cache'' := None)\<rparr>) ''k.cache''
      = local_files example_local ''k.cache''"
    by simp
  then show False by (simp add: example_local_def)
qed

theorem get_serves_first_hit_without_backfill_witness:
  "(1 :: nat) < length [Local example_local, Local example_local_fresh]
   \<and> fst (backend_get (\<lambda>k. k) 2000000 ''k'' ([Local example_local, Local example_local_fresh] ! 1))
       = Inr (Some (from_dict example_fresh_dict))
   \<and> \<not> readable (\<lambda>k. k) 2000000 ''k'' ([Local example_local, Local example_local_fresh] ! 0)
   \<and> fst (CacheManager_get (\<lambda>k. k) (\<lambda>i. 2000000) ''k'' [Local example_local, Local example_local_fresh])
       = Some (from_dict example_fresh_dict)
   \<and> drop 1 (snd (CacheManager_get (\<lambda>k. k) (\<lambda>i. 2000000) ''k''
                     [Local example_local, Local example_local_fresh]))
       = drop 1 [Local example_local, Local example_local_fresh]
   \<and> \<not> readable (\<lambda>k. k) 2000000 ''k''
         (snd (CacheManager_get (\<lambda>k. k) (\<lambda>i. 2000000) ''k''
                 [Local example_local, Local example_local_fresh]) ! 0)
   \<and> \<not> readable (\<lambda>k. k) 2000000 ''k'' ([Local example_local_empty] ! 0)
   \<and> fst (CacheManager_get (\<lambda>k. k) (\<lambda>i. 2000000) ''k'' [Local example_local_empty]) = None"
proof -
  have h: "fst (backend_get (\<lambda>k. k) 2000000 ''k'' (Local example_local_fresh))
       = Inr (Some (from_dict example_fresh_dict))"
    "\<not> readable (\<lambda>k. k) 2000000 ''k'' (Local example_local)"
    "\<not> readable (\<lambda>k. k) 2000000 ''k'' (Local example_local_empty)"
    by (simp_all add: readable_def local_defs Let_def is_expired_def example_local_def
        example_local_fresh_def example_local_empty_def example_dict_def example_fresh_dict_def
        from_dict_def)
  show ?thesis
    using h
      get_serves_first_hit_without_backfill
        [of 1 "[Local example_local, Local example_local_fresh]" "\<lambda>k. k" "\<lambda>i. 2000000" "''k''"
          "from_dict example_fresh_dict"]
      get_serves_first_hit_without_backfill
        [of 0 "[Local example_local_empty]" "\<lambda>k. k" "\<lambda>i. 2000000" "''k''"
          "from_dict example_fresh_dict"]
    by simp
qed

text \<open>
  Claim C8 as stated fails: an earlier backend that holds an expired entry for the key loses
  it during the read that a later backend serves, so it is not left unchanged.
\<close>

theorem get_evicts_from_earlier_backend:
  "fst (CacheManager_get (\<lambda>k. k) (\<lambda>i. 2000000) ''k'' [Local example_local, Local example_local_fresh])
     = Some (from_dict example_fresh_dict)
   \<and> fst (backend_get (\<lambda>k. k) 2000000 ''k'' (Local example_local)) = Inr None
   \<and> take 1 (snd (CacheManager_get (\<lambda>k. k) (\<lambda>i. 2000000) ''k''
                     [Local example_local, Local example_local_fresh]))
       \<noteq> take 1 [Local example_local, Local example_local_fresh]"
proof -
  have "fst (backend_get (\<lambda>k. k) 2000000 ''k'' (Local example_local)) = Inr None"
    by (simp add: local_defs Let_def is_expired_def example_local_def example_dict_def from_dict_def)
  with example_local_evicted show ?thesis
    unfolding example_get by simp
qed

subsection \<open>Write, then read\<close>


lemma key_new_entry: "key (new_entry created k d exp md) = k"
  by (simp add: new_entry_def)












subsection \<open>The manager without backends, and backends that fail\<close>
























end
